theory Spec2Isabelle
  imports Main
begin

section \<open>Inferred types\<close>

text \<open>
  The values that \<open>TypeDeducer.visit\<close> returns are Python objects: the singleton instance
  \<open>XunType\<close>, \<open>typing.Any\<close>, Python's \<open>None\<close> (the result of every visitor whose body is
  \<open>pass\<close>), the class \<open>NoneType\<close> (what \<open>typing\<close> stores for a \<open>None\<close> argument), the
  aliases \<open>typing.Union[...]\<close> and \<open>typing.Tuple[...]\<close> with their \<open>__args__\<close>, and the
  plain \<open>dict\<close> that \<open>visit_Dict\<close> builds.

  The source compares these objects with \<open>is\<close>. Identity is modelled by equality of the
  model values: the first four are singletons, \<open>typing\<close> caches its aliases so that the same
  arguments give the same alias object, and a dict carries the number of the allocation that
  created it, since every evaluation of a dictionary literal creates a new object.

  The module \<open>typing\<close> is modelled as in CPython 3.11: \<open>typing.Union[...]\<close> and
  \<open>typing.Tuple[...]\<close> accept any object as an argument and raise nothing for the objects
  above. The \<open>import astor\<close> at the head of \<open>visit_IfExp\<close> has no effect on the result and
  is left out.
\<close>

datatype xtype =
    XunType
  | Any
  | PyNone
  | NoneType
  | UnionOf "xtype list"
  | TupleOf "xtype list"
  | DictOf nat "(xtype \<times> xtype) list"

text \<open>
  The exceptions that can leave the visitor. \<open>visit_BinOp\<close> raises \<open>XunSyntaxError\<close> with a
  message, \<open>visit_Set\<close> raises the bare class, \<open>visit_Assign\<close> raises \<open>SyntaxError\<close>; the
  remaining ones are raised by the interpreter (a missing attribute, an index out of range,
  an unhashable dictionary key).
\<close>

datatype error =
    XunSyntaxError "string option"
  | SyntaxError string
  | TypeError
  | IndexError
  | AttributeError

abbreviation IllegalTaskResultUse :: error where
  "IllegalTaskResultUse \<equiv>
     XunSyntaxError (Some ''Cannot use xun function results as values in xun definition'')"

abbreviation HeterogeneousSet :: error where
  "HeterogeneousSet \<equiv> XunSyntaxError None"

abbreviation UnsupportedAssignmentForm :: error where
  "UnsupportedAssignmentForm \<equiv> SyntaxError ''Multiple targets not supported''"

subsection \<open>The operations of \<open>typing\<close> that the visitor uses\<close>

text \<open>
  \<open>==\<close> on the objects above: aliases compare their arguments (a \<open>Union\<close> as a set of
  alternatives, a \<open>Tuple\<close> position by position), dicts compare their items, everything else
  compares by identity.
\<close>

fun py_eq :: "xtype \<Rightarrow> xtype \<Rightarrow> bool" where
  "py_eq (UnionOf xs) (UnionOf ys) =
     (list_all (\<lambda>x. list_ex (\<lambda>y. py_eq x y) ys) xs \<and>
      list_all (\<lambda>y. list_ex (\<lambda>x. py_eq x y) xs) ys)"
| "py_eq (TupleOf xs) (TupleOf ys) = list_all2 py_eq xs ys"
| "py_eq (DictOf i ps) (DictOf j qs) =
     (length ps = length qs \<and>
      list_all (\<lambda>(k, v). list_ex (\<lambda>(k', v'). py_eq k k' \<and> py_eq v v') qs) ps)"
| "py_eq a b = (a = b)"

text \<open>\<open>typing\<close> stores \<open>NoneType\<close> for an argument \<open>None\<close>.\<close>

fun type_convert :: "xtype \<Rightarrow> xtype" where
  "type_convert PyNone = NoneType"
| "type_convert t = t"

fun flatten_unions :: "xtype list \<Rightarrow> xtype list" where
  "flatten_unions [] = []"
| "flatten_unions (UnionOf args # ps) = args @ flatten_unions ps"
| "flatten_unions (p # ps) = p # flatten_unions ps"

fun deduplicate :: "xtype list \<Rightarrow> xtype list \<Rightarrow> xtype list" where
  "deduplicate seen [] = seen"
| "deduplicate seen (p # ps) =
     deduplicate (if list_ex (\<lambda>q. py_eq q p) seen then seen else seen @ [p]) ps"

text \<open>
  \<open>typing.Union[a, b]\<close>: nested unions are flattened, duplicates are dropped (the first
  occurrence stays), and a union of one alternative is that alternative.
\<close>

definition typing_Union :: "xtype list \<Rightarrow> xtype" where
  "typing_Union params =
     (case deduplicate [] (flatten_unions (map type_convert params)) of
        [t] \<Rightarrow> t
      | ts \<Rightarrow> UnionOf ts)"

text \<open>\<open>typing.Tuple.__getitem__(params)\<close>.\<close>

definition typing_Tuple :: "xtype list \<Rightarrow> xtype" where
  "typing_Tuple params = TupleOf (map type_convert params)"

text \<open>
  \<open>isinstance(t, typing.Tuple)\<close> is \<open>isinstance(t, tuple)\<close>: it asks whether \<open>t\<close> is a Python
  tuple. None of the objects above is one; in particular the alias \<open>typing.Tuple[...]\<close> is
  not.
\<close>

definition isinstance_typing_Tuple :: "xtype \<Rightarrow> bool" where
  "isinstance_typing_Tuple t = False"

text \<open>\<open>hasattr(t, '__origin__') and t.__origin__ is tuple\<close>: true of a \<open>Tuple\<close> alias only.\<close>

fun origin_is_tuple :: "xtype \<Rightarrow> bool" where
  "origin_is_tuple (TupleOf ts) = True"
| "origin_is_tuple t = False"

text \<open>\<open>t.__args__\<close>: only aliases have the attribute.\<close>

fun args_of :: "xtype \<Rightarrow> error + xtype list" where
  "args_of (TupleOf ts) = Inr ts"
| "args_of (UnionOf ts) = Inr ts"
| "args_of t = Inl AttributeError"

text \<open>Indexing a Python tuple with a non-negative index.\<close>

definition getitem :: "'a list \<Rightarrow> nat \<Rightarrow> error + 'a" where
  "getitem xs i = (if i < length xs then Inr (xs ! i) else Inl IndexError)"

text \<open>The loop \<open>for i in index: target_type = target_type.__args__[i]\<close>.\<close>

fun follow_index :: "xtype \<Rightarrow> nat list \<Rightarrow> error + xtype" where
  "follow_index target_type [] = Inr target_type"
| "follow_index target_type (i # index) =
     (case args_of target_type of
        Inl e \<Rightarrow> Inl e
      | Inr args \<Rightarrow>
          (case getitem args i of
             Inl e \<Rightarrow> Inl e
           | Inr t \<Rightarrow> follow_index t index))"

text \<open>Dictionary keys must be hashable; a dict is not, and an alias is when its arguments are.\<close>

fun hashable :: "xtype \<Rightarrow> bool" where
  "hashable (DictOf i ps) = False"
| "hashable (TupleOf ts) = list_all hashable ts"
| "hashable (UnionOf ts) = list_all hashable ts"
| "hashable t = True"

text \<open>\<open>d[key] = value\<close> on a dict kept as its items in insertion order.\<close>

fun dict_setitem :: "(xtype \<times> xtype) list \<Rightarrow> xtype \<Rightarrow> xtype \<Rightarrow> (xtype \<times> xtype) list" where
  "dict_setitem [] key val = [(key, val)]"
| "dict_setitem ((k, v) # items) key val =
     (if py_eq k key then (k, val) # items else (k, v) # dict_setitem items key val)"

section \<open>Syntax trees\<close>

text \<open>
  Assignment and generator targets: a name, or a tuple pattern of targets.
\<close>

datatype target = TargetName string | TargetTuple "target list"

text \<open>The node classes whose visitor is \<open>pass\<close>, apart from \<open>BoolOp\<close> and \<open>UnaryOp\<close>.\<close>

datatype pass_kind =
    SetComp | DictComp | GeneratorExp | Await | Yield | YieldFrom | Compare
  | FormattedValue | JoinedStr | Attribute | Subscript | Starred | List | Slice

text \<open>
  Expression nodes, with the children that the visitor can reach and, for the nodes it does
  not descend into, the children it ignores. \<open>IfExp\<close> is test, body, orelse; \<open>Dict\<close> is keys
  and values; \<open>ListComp\<close> is the element and the generators, each a target and an iterable
  (the visitor reads no \<open>ifs\<close>); \<open>Call\<close> is the callee and the arguments. \<open>NoVisitor\<close> stands
  for the node classes for which \<open>TypeDeducer\<close> has no \<open>visit_\<close> method.
\<close>

datatype expr =
    BoolOp "expr list"
  | BinOp expr expr
  | UnaryOp expr
  | IfExp expr expr expr
  | Dict "expr list" "expr list"
  | Set "expr list"
  | ListComp expr "(target \<times> expr) list"
  | Call expr "expr list"
  | Constant
  | Name string
  | Tuple "expr list"
  | Unimplemented pass_kind "expr list"
  | NoVisitor "expr list"

datatype stmt = Assign "target list" expr | OtherStmt

section \<open>Target shapes\<close>

text \<open>
  Modelled from the spec: \<open>assignment_target_shape\<close>, \<open>indices_from_shape\<close> and
  \<open>flatten_assignment_targets\<close> are imported from \<open>util\<close>, which is not part of the source
  at hand. The shape is \<open>(1,)\<close> for a single leaf target and a nested arity tree for a
  compound one; the index paths and the leaf names come in the same left-to-right order,
  so that zipping them pairs each leaf with the path to its value inside a \<open>Tuple\<close>.
\<close>

datatype shape = Single | Compound "shape list"

fun assignment_target_shape :: "target \<Rightarrow> shape" where
  "assignment_target_shape (TargetName n) = Single"
| "assignment_target_shape (TargetTuple ts) = Compound (map assignment_target_shape ts)"

fun indices_from_shape :: "shape \<Rightarrow> nat list list"
  and indices_from_shapes :: "nat \<Rightarrow> shape list \<Rightarrow> nat list list" where
  "indices_from_shape Single = [[]]"
| "indices_from_shape (Compound shapes) = indices_from_shapes 0 shapes"
| "indices_from_shapes i [] = []"
| "indices_from_shapes i (s # shapes) =
     map ((#) i) (indices_from_shape s) @ indices_from_shapes (Suc i) shapes"

fun flatten_assignment_targets :: "target \<Rightarrow> string list" where
  "flatten_assignment_targets (TargetName n) = [n]"
| "flatten_assignment_targets (TargetTuple ts) = concat (map flatten_assignment_targets ts)"

section \<open>The visitor\<close>

text \<open>
  The fields of a \<open>TypeDeducer\<close> object. \<open>allocated\<close> is not a field of the class: it
  counts the dict objects created so far and gives each new one its identity.
\<close>

record TypeDeducer =
  known_xun_functions :: "string set"
  var_type_map :: "string \<rightharpoonup> xtype"
  local_var_type_map :: "string \<rightharpoonup> xtype"
  allocated :: nat

text \<open>\<open>TypeDeducer.__init__\<close>.\<close>

definition init :: "string set \<Rightarrow> TypeDeducer" where
  "init known =
     \<lparr>known_xun_functions = known, var_type_map = Map.empty,
      local_var_type_map = Map.empty, allocated = 0\<rparr>"

text \<open>
  The loop over \<open>zip(indices, flatten_targets)\<close> that \<open>visit_Assign\<close> and \<open>visit_ListComp\<close>
  share, on the mutation \<open>mm\<close> of a map. \<open>is_tuple\<close> is the outcome of the test that guards
  the walk into \<open>__args__\<close>: it is taken on the whole value type and is the same in every
  round.
\<close>

fun bind_targets ::
  "bool \<Rightarrow> xtype \<Rightarrow> (nat list \<times> string) list \<Rightarrow> (string \<rightharpoonup> xtype) \<Rightarrow> error + (string \<rightharpoonup> xtype)"
where
  "bind_targets is_tuple value_type [] mm = Inr mm"
| "bind_targets is_tuple value_type ((index, target_id) # rest) mm =
     (case (if is_tuple then follow_index value_type index else Inr value_type) of
        Inl e \<Rightarrow> Inl e
      | Inr target_type \<Rightarrow>
          bind_targets is_tuple value_type rest (mm(target_id \<mapsto> target_type)))"

text \<open>
  \<open>visit\<close> dispatches on the class of the node. A result is the returned type or the
  exception raised, together with the object as the call leaves it. The auxiliary
  functions are the loops of \<open>visit_Tuple\<close>, \<open>visit_Set\<close>, \<open>visit_Dict\<close> (a key is visited
  before its value, and stored after both) and \<open>visit_ListComp\<close>.
\<close>

function (sequential) visit :: "expr \<Rightarrow> TypeDeducer \<Rightarrow> (error + xtype) \<times> TypeDeducer"
  and visit_Tuple_elts :: "expr list \<Rightarrow> TypeDeducer \<Rightarrow> (error + xtype list) \<times> TypeDeducer"
  and visit_Set_elts :: "xtype \<Rightarrow> expr list \<Rightarrow> TypeDeducer \<Rightarrow> (error + unit) \<times> TypeDeducer"
  and visit_Dict_items ::
    "expr list \<Rightarrow> expr list \<Rightarrow> (xtype \<times> xtype) list \<Rightarrow> TypeDeducer \<Rightarrow>
       (error + (xtype \<times> xtype) list) \<times> TypeDeducer"
  and visit_generators ::
    "(target \<times> expr) list \<Rightarrow> (string \<rightharpoonup> xtype) \<Rightarrow> TypeDeducer \<Rightarrow>
       (error + (string \<rightharpoonup> xtype)) \<times> TypeDeducer"
where
  "visit (BoolOp values) self = (Inr PyNone, self)"
| "visit (BinOp left right) self =
     (case visit left self of
        (Inl e, self1) \<Rightarrow> (Inl e, self1)
      | (Inr left_type, self1) \<Rightarrow>
          (case visit right self1 of
             (Inl e, self2) \<Rightarrow> (Inl e, self2)
           | (Inr right_type, self2) \<Rightarrow>
               if left_type = XunType \<or> right_type = XunType
               then (Inl IllegalTaskResultUse, self2)
               else (Inr Any, self2)))"
| "visit (UnaryOp operand) self = (Inr PyNone, self)"
| "visit (IfExp test body orelse) self =
     (case visit body self of
        (Inl e, self1) \<Rightarrow> (Inl e, self1)
      | (Inr body_type, self1) \<Rightarrow>
          (case visit orelse self1 of
             (Inl e, self2) \<Rightarrow> (Inl e, self2)
           | (Inr orelse_type, self2) \<Rightarrow>
               if body_type \<noteq> orelse_type
               then (Inr (typing_Union [body_type, orelse_type]), self2)
               else (Inr body_type, self2)))"
| "visit (Dict keys vals) self =
     (case visit_Dict_items keys vals [] self of
        (Inl e, self1) \<Rightarrow> (Inl e, self1)
      | (Inr items, self1) \<Rightarrow>
          (Inr (DictOf (allocated self1) items), self1\<lparr>allocated := Suc (allocated self1)\<rparr>))"
| "visit (Set []) self = (Inl IndexError, self)"
| "visit (Set (elt # elts)) self =
     (case visit elt self of
        (Inl e, self1) \<Rightarrow> (Inl e, self1)
      | (Inr set_type, self1) \<Rightarrow>
          (case visit_Set_elts set_type (elt # elts) self1 of
             (Inl e, self2) \<Rightarrow> (Inl e, self2)
           | (Inr u, self2) \<Rightarrow> (Inr set_type, self2)))"
| "visit (ListComp elt generators) self =
     (case visit_generators generators (var_type_map self) self of
        (Inl e, self1) \<Rightarrow> (Inl e, self1)
      | (Inr local_map, self1) \<Rightarrow>
          (case visit elt (self1\<lparr>local_var_type_map := local_map\<rparr>) of
             (Inl e, self2) \<Rightarrow> (Inl e, self2)
           | (Inr result, self2) \<Rightarrow> (Inr result, self2\<lparr>local_var_type_map := Map.empty\<rparr>)))"
| "visit (Call func args) self =
     (case func of
        Name name \<Rightarrow>
          if name \<in> known_xun_functions self then (Inr XunType, self) else (Inr Any, self)
      | _ \<Rightarrow> (Inr Any, self))"
| "visit Constant self = (Inr Any, self)"
| "visit (Name name) self =
     (case var_type_map self name of
        Some t \<Rightarrow> (Inr t, self)
      | None \<Rightarrow>
          (case local_var_type_map self name of
             Some t \<Rightarrow> (Inr t, self)
           | None \<Rightarrow> (Inr Any, self)))"
| "visit (Tuple elts) self =
     (case visit_Tuple_elts elts self of
        (Inl e, self1) \<Rightarrow> (Inl e, self1)
      | (Inr types, self1) \<Rightarrow> (Inr (typing_Tuple types), self1))"
| "visit (Unimplemented kind children) self = (Inr PyNone, self)"
| "visit (NoVisitor children) self = (Inl AttributeError, self)"
| "visit_Tuple_elts [] self = (Inr [], self)"
| "visit_Tuple_elts (elt # elts) self =
     (case visit elt self of
        (Inl e, self1) \<Rightarrow> (Inl e, self1)
      | (Inr t, self1) \<Rightarrow>
          (case visit_Tuple_elts elts self1 of
             (Inl e, self2) \<Rightarrow> (Inl e, self2)
           | (Inr ts, self2) \<Rightarrow> (Inr (t # ts), self2)))"
| "visit_Set_elts set_type [] self = (Inr (), self)"
| "visit_Set_elts set_type (elt # elts) self =
     (case visit elt self of
        (Inl e, self1) \<Rightarrow> (Inl e, self1)
      | (Inr elt_type, self1) \<Rightarrow>
          if elt_type \<noteq> set_type then (Inl HeterogeneousSet, self1)
          else visit_Set_elts set_type elts self1)"
| "visit_Dict_items (k # keys) (v # vals) items self =
     (case visit k self of
        (Inl e, self1) \<Rightarrow> (Inl e, self1)
      | (Inr key_type, self1) \<Rightarrow>
          (case visit v self1 of
             (Inl e, self2) \<Rightarrow> (Inl e, self2)
           | (Inr value_type, self2) \<Rightarrow>
               if hashable key_type
               then visit_Dict_items keys vals (dict_setitem items key_type value_type) self2
               else (Inl TypeError, self2)))"
| "visit_Dict_items [] vals items self = (Inr items, self)"
| "visit_Dict_items keys [] items self = (Inr items, self)"
| "visit_generators [] mm self = (Inr mm, self)"
| "visit_generators ((target, iter) # generators) mm self =
     (case visit iter self of
        (Inl e, self1) \<Rightarrow> (Inl e, self1)
      | (Inr iter_types, self1) \<Rightarrow>
          if iter_types = PyNone then visit_generators generators mm self1
          else if assignment_target_shape target = Single then
            (case target of
               TargetName name \<Rightarrow> visit_generators generators (mm(name \<mapsto> iter_types)) self1
             | TargetTuple ts \<Rightarrow> (Inl AttributeError, self1))
          else
            (case bind_targets (origin_is_tuple iter_types) iter_types
                    (zip (indices_from_shape (assignment_target_shape target))
                         (flatten_assignment_targets target)) mm of
               Inl e \<Rightarrow> (Inl e, self1)
             | Inr mm' \<Rightarrow> visit_generators generators mm' self1))"
  by pat_completeness auto

termination
  by (relation "measure (\<lambda>x. case x of
        Inl (Inl (e, s)) \<Rightarrow> size e
      | Inl (Inr (es, s)) \<Rightarrow> size_list size es
      | Inr (Inl (t, es, s)) \<Rightarrow> size_list size es
      | Inr (Inr (Inl (ks, vs, items, s))) \<Rightarrow> size_list size ks + size_list size vs
      | Inr (Inr (Inr (gs, mm, s))) \<Rightarrow> size_list (size_prod (\<lambda>t. 0) size) gs)")
    simp_all

text \<open>
  \<open>visit_Assign\<close>. A statement of another class has no visitor, as \<open>NoVisitor\<close> above.
\<close>

definition visit_Assign :: "target list \<Rightarrow> expr \<Rightarrow> TypeDeducer \<Rightarrow> (error + xtype) \<times> TypeDeducer" where
  "visit_Assign targets val self =
     (if length targets > 1 then (Inl UnsupportedAssignmentForm, self)
      else
        (case targets of
           [] \<Rightarrow> (Inl IndexError, self)
         | target # ts \<Rightarrow>
             (case visit val self of
                (Inl e, self1) \<Rightarrow> (Inl e, self1)
              | (Inr value_type, self1) \<Rightarrow>
                  if assignment_target_shape target = Single then
                    (case target of
                       TargetName name \<Rightarrow>
                         (Inr value_type,
                          self1\<lparr>var_type_map := (var_type_map self1)(name \<mapsto> value_type)\<rparr>)
                     | TargetTuple ts \<Rightarrow> (Inl AttributeError, self1))
                  else
                    (case bind_targets (isinstance_typing_Tuple value_type) value_type
                            (zip (indices_from_shape (assignment_target_shape target))
                                 (flatten_assignment_targets target))
                            (var_type_map self1) of
                       Inl e \<Rightarrow> (Inl e, self1)
                     | Inr mm \<Rightarrow> (Inr value_type, self1\<lparr>var_type_map := mm\<rparr>)))))"

fun visit_stmt :: "stmt \<Rightarrow> TypeDeducer \<Rightarrow> (error + xtype) \<times> TypeDeducer" where
  "visit_stmt (Assign targets val) self = visit_Assign targets val self"
| "visit_stmt OtherStmt self = (Inl AttributeError, self)"

section \<open>Auxiliary notions\<close>

text \<open>
  Two objects agree on what an expression visit cannot change: the bindings of the function
  body and the set of known xun functions.
\<close>

definition same_outer :: "TypeDeducer \<Rightarrow> TypeDeducer \<Rightarrow> bool" where
  "same_outer s s' \<longleftrightarrow>
     var_type_map s' = var_type_map s \<and> known_xun_functions s' = known_xun_functions s"

text \<open>
  The running example of a comprehension: \<open>[(i, k) for i in xs for k in i]\<close>, visited by an
  object in which \<open>xs\<close> is bound to \<open>XunType\<close> (as after \<open>xs = f()\<close>) and neither \<open>i\<close> nor
  \<open>k\<close> is bound.
\<close>

definition xs_bound :: TypeDeducer where
  "xs_bound = (init {''f''})\<lparr>var_type_map := [''xs'' \<mapsto> XunType]\<rparr>"

definition pairs_comp :: expr where
  "pairs_comp = ListComp (Tuple [Name ''i'', Name ''k''])
                  [(TargetName ''i'', Name ''xs''), (TargetName ''k'', Name ''i'')]"



text \<open>
  \<open>XunType\<close> occurs in a type: it is the type, or an argument of an alias, or a key or a
  value of a dict, at any depth.
\<close>

fun mentions_XunType :: "xtype \<Rightarrow> bool" where
  "mentions_XunType XunType = True"
| "mentions_XunType (UnionOf ts) = list_ex mentions_XunType ts"
| "mentions_XunType (TupleOf ts) = list_ex mentions_XunType ts"
| "mentions_XunType (DictOf i items) =
     list_ex (\<lambda>(k, v). mentions_XunType k \<or> mentions_XunType v) items"
| "mentions_XunType t = False"

text \<open>
  An expression contains, at any depth, a call whose callee is the bare name of one of the
  functions in \<open>K\<close>.
\<close>

fun calls_known :: "string set \<Rightarrow> expr \<Rightarrow> bool" where
  "calls_known K (Call func args) =
     ((case func of Name name \<Rightarrow> name \<in> K | _ \<Rightarrow> False)
      \<or> calls_known K func \<or> list_ex (calls_known K) args)"
| "calls_known K (BoolOp vals) = list_ex (calls_known K) vals"
| "calls_known K (BinOp left right) = (calls_known K left \<or> calls_known K right)"
| "calls_known K (UnaryOp operand) = calls_known K operand"
| "calls_known K (IfExp test body orelse) =
     (calls_known K test \<or> calls_known K body \<or> calls_known K orelse)"
| "calls_known K (Dict keys vals) =
     (list_ex (calls_known K) keys \<or> list_ex (calls_known K) vals)"
| "calls_known K (Set elts) = list_ex (calls_known K) elts"
| "calls_known K (ListComp elt generators) =
     (calls_known K elt \<or> list_ex (\<lambda>(target, iter). calls_known K iter) generators)"
| "calls_known K Constant = False"
| "calls_known K (Name name) = False"
| "calls_known K (Tuple elts) = list_ex (calls_known K) elts"
| "calls_known K (Unimplemented kind children) = list_ex (calls_known K) children"
| "calls_known K (NoVisitor children) = list_ex (calls_known K) children"

text \<open>
  \<open>XunType\<close> occurs in no binding of a map, in no item of a dict under construction, and in
  no binding of an object whose known xun functions are \<open>K\<close>.
\<close>

definition xun_free_env :: "(string \<rightharpoonup> xtype) \<Rightarrow> bool" where
  "xun_free_env m \<longleftrightarrow> (\<forall>name t. m name = Some t \<longrightarrow> \<not> mentions_XunType t)"

definition xun_free :: "string set \<Rightarrow> TypeDeducer \<Rightarrow> bool" where
  "xun_free K self \<longleftrightarrow>
     known_xun_functions self = K \<and> xun_free_env (var_type_map self)
     \<and> xun_free_env (local_var_type_map self)"

definition items_xun_free :: "(xtype \<times> xtype) list \<Rightarrow> bool" where
  "items_xun_free items \<longleftrightarrow>
     \<not> list_ex (\<lambda>(k, v). mentions_XunType k \<or> mentions_XunType v) items"

section \<open>Binary operators\<close>



section \<open>Names\<close>

text \<open>
  C8. \<open>visit_Name\<close> looks the name up in \<open>var_type_map\<close> first, then in
  \<open>local_var_type_map\<close>, and returns \<open>typing.Any\<close> when neither binds it; it never raises and
  leaves the object as it is. After \<open>x = f()\<close> with \<open>f\<close> a known xun function, the statement
  \<open>y = x\<close> binds \<open>y\<close> to \<open>XunType\<close>.
\<close>

theorem name_lookup_outer_then_local:
  "visit (Name name) self =
     (Inr (case var_type_map self name of
             Some t \<Rightarrow> t
           | None \<Rightarrow> (case local_var_type_map self name of Some t \<Rightarrow> t | None \<Rightarrow> Any)),
      self)
   \<and> var_type_map
        (snd (visit_stmt (Assign [TargetName ''y''] (Name ''x''))
          (snd (visit_stmt (Assign [TargetName ''x''] (Call (Name ''f'') [])) (init {''f''})))))
        ''y'' = Some XunType"
  by (simp add: visit_Assign_def init_def split: option.splits)

theorem name_lookup_outer_then_local_witness:
  "visit (Name ''x'')
     ((init {})\<lparr>var_type_map := [''x'' \<mapsto> XunType], local_var_type_map := [''x'' \<mapsto> NoneType]\<rparr>) =
     (Inr XunType,
      (init {})\<lparr>var_type_map := [''x'' \<mapsto> XunType], local_var_type_map := [''x'' \<mapsto> NoneType]\<rparr>)
   \<and> fst (visit (Name ''x'') ((init {})\<lparr>local_var_type_map := [''x'' \<mapsto> NoneType]\<rparr>)) =
       Inr NoneType
   \<and> fst (visit (Name ''x'') (init {})) = Inr Any"
  using
    name_lookup_outer_then_local [of "''x''"
      "(init {})\<lparr>var_type_map := [''x'' \<mapsto> XunType], local_var_type_map := [''x'' \<mapsto> NoneType]\<rparr>"]
    name_lookup_outer_then_local [of "''x''"
      "(init {})\<lparr>local_var_type_map := [''x'' \<mapsto> NoneType]\<rparr>"]
    name_lookup_outer_then_local [of "''x''" "init {}"]
  by (simp add: init_def)

section \<open>Boolean and unary operators\<close>

text \<open>
  C5, as the code has it. The bodies of \<open>visit_BoolOp\<close> and \<open>visit_UnaryOp\<close> are \<open>pass\<close>: for
  every boolean-operator and every unary-operator expression the visitor returns Python's
  \<open>None\<close>, not \<open>typing.Any\<close>, whatever the operands are; it visits no operand, changes
  nothing and raises nothing, also when an operand is a call of a known xun function.
\<close>

theorem boolop_unaryop_return_None:
  "visit (BoolOp vals) self = (Inr PyNone, self)
   \<and> visit (UnaryOp operand) self = (Inr PyNone, self)"
  by simp

theorem boolop_unaryop_return_None_witness:
  "visit (BoolOp [Call (Name ''f'') [], Constant]) (init {''f''}) = (Inr PyNone, init {''f''})
   \<and> visit (UnaryOp (Call (Name ''f'') [])) (init {''f''}) = (Inr PyNone, init {''f''})"
  using boolop_unaryop_return_None [of "[Call (Name ''f'') [], Constant]" "init {''f''}"
      "Call (Name ''f'') []"]
  by simp

text \<open>
  The result is not \<open>typing.Any\<close>: \<open>-f()\<close> and \<open>1 and 2\<close> do not infer to it.
\<close>

theorem boolop_unaryop_not_Any:
  "fst (visit (UnaryOp (Call (Name ''f'') [])) (init {''f''})) \<noteq> Inr Any
   \<and> fst (visit (BoolOp [Constant, Constant]) (init {''f''})) \<noteq> Inr Any"
  by simp

text \<open>
  The difference can be observed: in the set \<open>{1, -1}\<close> the second element is a unary
  operation, its type \<open>None\<close> is not the \<open>typing.Any\<close> of the first, and the set is rejected.
\<close>

lemma set_with_unary_element_rejected:
  "fst (visit (Set [Constant, UnaryOp Constant]) (init {})) = Inl HeterogeneousSet"
  by simp

section \<open>Assignment to a tuple of targets\<close>

text \<open>
  C3 at \<open>(a, b) = (1, f())\<close>, with \<open>f\<close> a known xun function. The right-hand side infers
  to \<open>Tuple[Any, XunType]\<close>, which the assignment returns. The test
  \<open>isinstance(target_type, typing.Tuple)\<close> that guards the walk along the index path fails
  for it, so both \<open>a\<close> and \<open>b\<close> are bound to the whole \<open>Tuple[Any, XunType]\<close>, not to its
  elements.
\<close>

theorem assign_tuple_binds_whole_type:
  "visit_stmt (Assign [TargetTuple [TargetName ''a'', TargetName ''b'']]
                 (Tuple [Constant, Call (Name ''f'') []])) (init {''f''}) =
     (Inr (TupleOf [Any, XunType]),
      (init {''f''})\<lparr>var_type_map :=
         [''a'' \<mapsto> TupleOf [Any, XunType], ''b'' \<mapsto> TupleOf [Any, XunType]]\<rparr>)"
  by (simp add: visit_Assign_def init_def typing_Tuple_def isinstance_typing_Tuple_def)

section \<open>Conditional expressions\<close>



section \<open>Set literals\<close>




text \<open>
  The comprehension \<open>[b for (a, b) in (1, f())]\<close> takes the same walk behind the test
  \<open>__origin__ is tuple\<close>, which holds for the alias: there \<open>a\<close> is bound to \<open>typing.Any\<close> and
  \<open>b\<close> to \<open>XunType\<close>.
\<close>

lemma generator_tuple_binds_elements:
  "visit_generators
     [(TargetTuple [TargetName ''a'', TargetName ''b''], Tuple [Constant, Call (Name ''f'') []])]
     Map.empty (init {''f''}) =
     (Inr [''a'' \<mapsto> Any, ''b'' \<mapsto> XunType], init {''f''})"
  by (simp add: init_def typing_Tuple_def getitem_def)

section \<open>Comprehensions\<close>

text \<open>No expression visit changes \<open>var_type_map\<close> or the known names, whatever its outcome.\<close>

lemma same_outer_refl [simp]: "same_outer s s"
  by (simp add: same_outer_def)


lemma same_outer_update [simp]:
  "same_outer (s\<lparr>local_var_type_map := m\<rparr>) s' = same_outer s s'"
  "same_outer s (s'\<lparr>local_var_type_map := m\<rparr>) = same_outer s s'"
  "same_outer s (s'\<lparr>allocated := n\<rparr>) = same_outer s s'"
  by (simp_all add: same_outer_def)






text \<open>
  The generator loop adds bindings to the mutation \<open>mm\<close> and never reads it: its outcome on
  any \<open>mm\<close> is its outcome on the empty map, added to \<open>mm\<close>.
\<close>

lemma bind_targets_from_empty:
  "bind_targets is_tuple value_type pairs mm =
     (case bind_targets is_tuple value_type pairs Map.empty of
        Inl e \<Rightarrow> Inl e
      | Inr added \<Rightarrow> Inr (mm ++ added))"
proof (induction pairs arbitrary: mm)
  case Nil
  then show ?case by simp
next
  case (Cons p pairs)
  obtain index target_id where p: "p = (index, target_id)" by (cases p)
  show ?case
  proof (cases "if is_tuple then follow_index value_type index else Inr value_type")
    case (Inl e)
    then show ?thesis by (simp add: p)
  next
    case (Inr target_type)
    have step: "bind_targets is_tuple value_type (p # pairs) m =
            bind_targets is_tuple value_type pairs (m(target_id \<mapsto> target_type))" for m
      using Inr by (simp add: p del: fun_upd_apply)
    have join: "mm ++ ([target_id \<mapsto> target_type] ++ added) =
            mm(target_id \<mapsto> target_type) ++ added" for added
    proof -
      have "mm ++ ([target_id \<mapsto> target_type] ++ added) =
              (mm ++ [target_id \<mapsto> target_type]) ++ added"
        by (rule map_add_assoc)
      also have "mm ++ [target_id \<mapsto> target_type] = mm(target_id \<mapsto> target_type)"
        by (simp only: map_add_upd map_add_empty)
      finally show ?thesis .
    qed
    show ?thesis
    proof (cases "bind_targets is_tuple value_type pairs Map.empty")
      case (Inl e)
      then show ?thesis
        using Cons.IH [of "mm(target_id \<mapsto> target_type)"]
          Cons.IH [of "[target_id \<mapsto> target_type]"]
        by (simp only: step sum.case)
    next
      case (Inr added)
      then show ?thesis
        using Cons.IH [of "mm(target_id \<mapsto> target_type)"]
          Cons.IH [of "[target_id \<mapsto> target_type]"]
        by (simp only: step sum.case join)
    qed
  qed
qed

lemma visit_generators_from_empty:
  "visit_generators generators mm self =
     (case visit_generators generators Map.empty self of
        (Inl e, self') \<Rightarrow> (Inl e, self')
      | (Inr added, self') \<Rightarrow> (Inr (mm ++ added), self'))"
proof (induction generators arbitrary: mm self)
  case Nil
  then show ?case by simp
next
  case (Cons g generators)
  obtain target iter where g: "g = (target, iter)" by (cases g)
  obtain r self1 where it: "visit iter self = (r, self1)" by (cases "visit iter self")
  show ?case
  proof (cases r)
    case (Inl e)
    then show ?thesis using it by (simp add: g)
  next
    case (Inr iter_types)
    have tail: "visit_generators generators m self1 =
       (case visit_generators generators Map.empty self1 of
          (Inl e, self') \<Rightarrow> (Inl e, self')
        | (Inr added, self') \<Rightarrow> (Inr (m ++ added), self'))" for m
      by (rule Cons.IH)
    have join: "mm ++ (d ++ added) = (mm ++ d) ++ added" for d added
      by (rule map_add_assoc)
    have upd: "mm ++ [n \<mapsto> iter_types] = mm(n \<mapsto> iter_types)" for n
      by (simp only: map_add_upd map_add_empty)
    show ?thesis
    proof (cases "iter_types = PyNone")
      case True
      then show ?thesis
        using it Inr tail [of mm] by (simp add: g)
    next
      case notNone: False
      show ?thesis
      proof (cases target)
        case (TargetName n)
        have "visit_generators (g # generators) m self =
                visit_generators generators (m(n \<mapsto> iter_types)) self1" for m
          using it Inr notNone TargetName by (simp add: g del: fun_upd_apply)
        then show ?thesis
          using tail [of "mm(n \<mapsto> iter_types)"] tail [of "[n \<mapsto> iter_types]"]
            join [of "[n \<mapsto> iter_types]"] upd [of n]
          by (simp split: prod.splits sum.splits del: fun_upd_apply map_add_upd)
      next
        case (TargetTuple ts)
        let ?pairs = "zip (indices_from_shape (assignment_target_shape target))
                          (flatten_assignment_targets target)"
        have step: "visit_generators (g # generators) m self =
                (case bind_targets (origin_is_tuple iter_types) iter_types ?pairs m of
                   Inl e \<Rightarrow> (Inl e, self1)
                 | Inr m' \<Rightarrow> visit_generators generators m' self1)" for m
          using it Inr notNone TargetTuple by (simp add: g del: fun_upd_apply)
        show ?thesis
        proof (cases "bind_targets (origin_is_tuple iter_types) iter_types ?pairs Map.empty")
          case (Inl e)
          then show ?thesis
            using bind_targets_from_empty [of "origin_is_tuple iter_types" iter_types ?pairs mm]
            by (simp add: step)
        next
          case bound: (Inr d)
          then have "bind_targets (origin_is_tuple iter_types) iter_types ?pairs mm = Inr (mm ++ d)"
            using bind_targets_from_empty [of "origin_is_tuple iter_types" iter_types ?pairs mm]
            by simp
          then show ?thesis
            using bound tail [of "mm ++ d"] tail [of d] join [of d]
            by (simp add: step split: prod.splits sum.splits)
        qed
      qed
    qed
  qed
qed

text \<open>
  C10. The targets bound by earlier generators are not visible while a later generator's
  iterable is inferred: the iterables are visited with the object as it is, while the
  bindings go to \<open>mm\<close>, which becomes \<open>local_var_type_map\<close> only after the last generator.
  So the types inferred for the iterables, the exception if there is one, and the object
  after the loop do not depend on the bindings made so far. In
  \<open>[(i, k) for i in xs for k in i]\<close> with \<open>xs\<close> a xun result, \<open>i\<close> is bound to \<open>XunType\<close>,
  but the iterable \<open>i\<close> of the second generator is looked up as an unbound name, so \<open>k\<close> is
  bound to \<open>typing.Any\<close>; only the element \<open>(i, k)\<close> sees both bindings.
\<close>

theorem generator_iterables_ignore_earlier_targets:
  "visit_generators generators mm self =
     (case visit_generators generators Map.empty self of
        (Inl e, self') \<Rightarrow> (Inl e, self')
      | (Inr added, self') \<Rightarrow> (Inr (mm ++ added), self'))
   \<and> visit_generators [(TargetName ''i'', Name ''xs''), (TargetName ''k'', Name ''i'')]
         (var_type_map xs_bound) xs_bound =
       (Inr [''xs'' \<mapsto> XunType, ''i'' \<mapsto> XunType, ''k'' \<mapsto> Any], xs_bound)
   \<and> fst (visit pairs_comp xs_bound) = Inr (TupleOf [XunType, Any])"
  using visit_generators_from_empty [of generators mm self]
  by (simp add: xs_bound_def pairs_comp_def init_def typing_Tuple_def)

theorem generator_iterables_ignore_earlier_targets_witness:
  "visit_generators [(TargetName ''k'', Name ''i'')] [''i'' \<mapsto> XunType] (init {}) =
     (Inr [''i'' \<mapsto> XunType, ''k'' \<mapsto> Any], init {})"
  using generator_iterables_ignore_earlier_targets
    [of "[(TargetName ''k'', Name ''i'')]" "[''i'' \<mapsto> XunType]" "init {}"]
  by (simp add: init_def)

section \<open>Projection along an index path\<close>







section \<open>Calls\<close>

text \<open>
  None of the operations on types brings \<open>XunType\<close> into a type or a map that is free of it.
\<close>

lemma type_convert_xun_free: "\<not> mentions_XunType t \<Longrightarrow> \<not> mentions_XunType (type_convert t)"
  by (cases t) simp_all

lemma flatten_unions_xun_free:
  "list_ex mentions_XunType (flatten_unions ps) = list_ex mentions_XunType ps"
  by (induction ps rule: flatten_unions.induct) (auto simp: list_ex_iff)

lemma set_deduplicate: "set (deduplicate seen ps) \<subseteq> set seen \<union> set ps"
proof (induction ps arbitrary: seen)
  case Nil
  then show ?case by simp
next
  case (Cons p ps)
  show ?case
    using Cons.IH [of seen] Cons.IH [of "seen @ [p]"] by auto
qed

lemma typing_Union_xun_free:
  assumes "\<not> mentions_XunType a" and "\<not> mentions_XunType b"
  shows "\<not> mentions_XunType (typing_Union [a, b])"
proof -
  let ?ps = "map type_convert [a, b]"
  let ?ts = "deduplicate [] (flatten_unions ?ps)"
  have "\<not> list_ex mentions_XunType ?ps"
    using assms by (simp add: type_convert_xun_free)
  then have "\<not> list_ex mentions_XunType (flatten_unions ?ps)"
    using flatten_unions_xun_free [of ?ps] by blast
  moreover have "set ?ts \<subseteq> set (flatten_unions ?ps)"
    using set_deduplicate [of "[]" "flatten_unions ?ps"] by simp
  ultimately have free: "\<not> list_ex mentions_XunType ?ts"
    by (auto simp: list_ex_iff)
  show ?thesis
  proof (cases ?ts)
    case Nil
    then show ?thesis by (simp add: typing_Union_def)
  next
    case (Cons t ts)
    then show ?thesis
      using free by (cases ts) (simp_all add: typing_Union_def)
  qed
qed

lemma typing_Tuple_xun_free:
  "\<not> list_ex mentions_XunType ts \<Longrightarrow> \<not> mentions_XunType (typing_Tuple ts)"
  by (auto simp: typing_Tuple_def list_ex_iff type_convert_xun_free)

lemma dict_setitem_xun_free:
  "items_xun_free items \<Longrightarrow> \<not> mentions_XunType k \<Longrightarrow> \<not> mentions_XunType v \<Longrightarrow>
     items_xun_free (dict_setitem items k v)"
  by (induction items k v rule: dict_setitem.induct) (auto simp: items_xun_free_def)

lemma follow_index_xun_free:
  "\<not> mentions_XunType t \<Longrightarrow> follow_index t path = Inr t' \<Longrightarrow> \<not> mentions_XunType t'"
proof (induction t path rule: follow_index.induct)
  case (1 target_type)
  then show ?case by simp
next
  case (2 target_type i index)
  then show ?case
    by (cases target_type) (auto simp: getitem_def list_ex_iff split: if_splits)
qed

lemma xun_free_env_upd:
  "xun_free_env m \<Longrightarrow> \<not> mentions_XunType t \<Longrightarrow> xun_free_env (m(name \<mapsto> t))"
  by (simp add: xun_free_env_def)

lemma bind_targets_xun_free:
  "bind_targets g t pairs mm = Inr mm' \<Longrightarrow> xun_free_env mm \<Longrightarrow> \<not> mentions_XunType t \<Longrightarrow>
     xun_free_env mm'"
proof (induction pairs arbitrary: mm)
  case Nil
  then show ?case by simp
next
  case (Cons p pairs)
  obtain index n where p: "p = (index, n)" by (cases p)
  from Cons.prems(1) obtain tt where
    tt: "(if g then follow_index t index else Inr t) = Inr tt"
    and rest: "bind_targets g t pairs (mm(n \<mapsto> tt)) = Inr mm'"
    by (auto simp: p split: sum.splits simp del: fun_upd_apply)
  have "\<not> mentions_XunType tt"
    using tt Cons.prems(3) follow_index_xun_free by (auto split: if_splits)
  then show ?case
    using Cons.IH [OF rest _ Cons.prems(3)] Cons.prems(2) xun_free_env_upd by blast
qed

lemma xun_free_env_empty [simp]: "xun_free_env Map.empty"
  by (simp add: xun_free_env_def)

lemma xun_free_lookup:
  "xun_free_env m \<Longrightarrow> m name = Some t \<Longrightarrow> \<not> mentions_XunType t"
  by (auto simp: xun_free_env_def)

lemma xun_free_update [simp]:
  "xun_free K (s\<lparr>allocated := n\<rparr>) = xun_free K s"
  "xun_free K s \<Longrightarrow> xun_free_env m \<Longrightarrow> xun_free K (s\<lparr>local_var_type_map := m\<rparr>)"
  by (simp_all add: xun_free_def)

lemma xun_free_outer: "xun_free K s \<Longrightarrow> xun_free_env (var_type_map s)"
  by (simp add: xun_free_def)

lemma visit_xun_free:
  "xun_free K self \<Longrightarrow> \<not> calls_known K e \<Longrightarrow>
     xun_free K (snd (visit e self))
     \<and> (\<forall>t. fst (visit e self) = Inr t \<longrightarrow> \<not> mentions_XunType t)"
  "xun_free K self \<Longrightarrow> \<not> list_ex (calls_known K) es \<Longrightarrow>
     xun_free K (snd (visit_Tuple_elts es self))
     \<and> (\<forall>ts. fst (visit_Tuple_elts es self) = Inr ts \<longrightarrow> \<not> list_ex mentions_XunType ts)"
  "xun_free K self \<Longrightarrow> \<not> list_ex (calls_known K) es \<Longrightarrow>
     xun_free K (snd (visit_Set_elts st es self))"
  "xun_free K self \<Longrightarrow> \<not> list_ex (calls_known K) ks \<Longrightarrow> \<not> list_ex (calls_known K) vs \<Longrightarrow>
     items_xun_free items \<Longrightarrow>
     xun_free K (snd (visit_Dict_items ks vs items self))
     \<and> (\<forall>r. fst (visit_Dict_items ks vs items self) = Inr r \<longrightarrow> items_xun_free r)"
  "xun_free K self \<Longrightarrow> \<not> list_ex (\<lambda>(target, iter). calls_known K iter) gs \<Longrightarrow>
     xun_free_env mm \<Longrightarrow>
     xun_free K (snd (visit_generators gs mm self))
     \<and> (\<forall>r. fst (visit_generators gs mm self) = Inr r \<longrightarrow> xun_free_env r)"
proof (induction e self and es self and st es self and ks vs items self and gs mm self
    rule: visit_visit_Tuple_elts_visit_Set_elts_visit_Dict_items_visit_generators.induct)
  case (1 "values" self)
  then show ?case by simp
next
  case (2 left right self)
  then show ?case
    by (auto split: prod.splits sum.splits)
next
  case (3 operand self)
  then show ?case by simp
next
  case (4 test body orelse self)
  then show ?case
    by (auto split: prod.splits sum.splits simp: typing_Union_xun_free)
next
  case (5 keys vals self)
  then show ?case
    by (auto split: prod.splits sum.splits simp: items_xun_free_def)
next
  case (6 self)
  then show ?case by simp
next
  case (7 elt elts self)
  then show ?case
    by (auto split: prod.splits sum.splits)
next
  case (8 elt generators self)
  then show ?case
    by (auto split: prod.splits sum.splits simp: xun_free_outer)
next
  case (9 func args self)
  then show ?case
    by (auto split: expr.splits simp: xun_free_def)
next
  case (10 self)
  then show ?case by simp
next
  case (11 name self)
  then show ?case
    by (auto split: option.splits simp: xun_free_def dest: xun_free_lookup)
next
  case (12 elts self)
  then show ?case
    by (auto split: prod.splits sum.splits simp: typing_Tuple_xun_free)
next
  case (13 kind children self)
  then show ?case by simp
next
  case (14 children self)
  then show ?case by simp
next
  case (15 self)
  then show ?case by simp
next
  case (16 elt elts self)
  then show ?case
    by (auto split: prod.splits sum.splits)
next
  case (17 set_type self)
  then show ?case by simp
next
  case (18 set_type elt elts self)
  then show ?case
    by (auto split: prod.splits sum.splits)
next
  case (19 k keys v vals items self)
  then show ?case
    by (auto split: prod.splits sum.splits simp: dict_setitem_xun_free)
next
  case (20 vals items self)
  then show ?case by simp
next
  case (21 v va items self)
  then show ?case by simp
next
  case (22 mm self)
  then show ?case by simp
next
  case (23 target iter generators mm self)
  obtain r self1 where it: "visit iter self = (r, self1)" by (cases "visit iter self")
  have it': "(r, self1) = visit iter self" using it by simp
  have nocall: "\<not> calls_known K iter"
    and nocalls: "\<not> list_ex (\<lambda>(target, iter). calls_known K iter) generators"
    using "23.prems"(2) by simp_all
  have "xun_free K (snd (visit iter self))
        \<and> (\<forall>t. fst (visit iter self) = Inr t \<longrightarrow> \<not> mentions_XunType t)"
    using "23.IH"(1) "23.prems"(1) nocall by blast
  then have free1: "xun_free K self1" and res: "\<And>t. r = Inr t \<Longrightarrow> \<not> mentions_XunType t"
    using it by simp_all
  show ?case
  proof (cases r)
    case (Inl e)
    then show ?thesis using it free1 by simp
  next
    case (Inr b)
    have bfree: "\<not> mentions_XunType b" using res Inr by simp
    show ?thesis
    proof (cases "b = PyNone")
      case True
      from "23.IH"(2) [OF it' Inr True free1 nocalls "23.prems"(3)]
      show ?thesis using it Inr True by simp
    next
      case False
      show ?thesis
      proof (cases target)
        case (TargetName n)
        have sh: "assignment_target_shape target = Single" using TargetName by simp
        have "xun_free_env (mm(n \<mapsto> b))"
          using "23.prems"(3) bfree by (rule xun_free_env_upd)
        from "23.IH"(3) [OF it' Inr False sh TargetName free1 nocalls this]
        show ?thesis using it Inr False TargetName by (simp del: fun_upd_apply)
      next
        case (TargetTuple ts)
        have sh: "assignment_target_shape target \<noteq> Single" using TargetTuple by simp
        show ?thesis
        proof (cases "bind_targets (origin_is_tuple b) b
                        (zip (indices_from_shape (assignment_target_shape target))
                             (flatten_assignment_targets target)) mm")
          case (Inl e)
          then show ?thesis using it Inr False TargetTuple free1 by simp
        next
          case bound: (Inr ba)
          have "xun_free_env ba"
            using bind_targets_xun_free [OF bound "23.prems"(3) bfree] .
          from "23.IH"(4) [OF it' Inr False sh bound free1 nocalls this]
          show ?thesis using it Inr False TargetTuple bound by simp
        qed
      qed
    qed
  qed
qed

text \<open>The same for an assignment, whose bindings come from the type of its right-hand side.\<close>

lemma visit_Assign_xun_free:
  assumes "xun_free K self" and "\<not> calls_known K val"
  shows "xun_free K (snd (visit_Assign targets val self))
         \<and> (\<forall>t. fst (visit_Assign targets val self) = Inr t \<longrightarrow> \<not> mentions_XunType t)"
proof -
  obtain r self1 where v: "visit val self = (r, self1)" by (cases "visit val self")
  have free1: "xun_free K self1" and res: "\<And>t. r = Inr t \<Longrightarrow> \<not> mentions_XunType t"
    using visit_xun_free(1) [OF assms] v by simp_all
  have upd: "xun_free K (self1\<lparr>var_type_map := m\<rparr>)" if "xun_free_env m" for m
    using free1 that by (simp add: xun_free_def)
  show ?thesis
  proof (cases targets)
    case Nil
    then show ?thesis using assms(1) by (simp add: visit_Assign_def)
  next
    case (Cons target ts)
    show ?thesis
    proof (cases "ts = []")
      case False
      then show ?thesis using assms(1) Cons by (simp add: visit_Assign_def)
    next
      case True
      show ?thesis
      proof (cases r)
        case (Inl e)
        then show ?thesis using v free1 Cons True by (simp add: visit_Assign_def)
      next
        case (Inr value_type)
        have vfree: "\<not> mentions_XunType value_type" using res Inr by simp
        show ?thesis
        proof (cases target)
          case (TargetName n)
          have "xun_free K (self1\<lparr>var_type_map := (var_type_map self1)(n \<mapsto> value_type)\<rparr>)"
            using xun_free_env_upd [OF xun_free_outer [OF free1] vfree] by (rule upd)
          then show ?thesis
            using v Inr Cons True TargetName vfree
            by (simp add: visit_Assign_def del: fun_upd_apply)
        next
          case (TargetTuple tts)
          show ?thesis
          proof (cases "bind_targets (isinstance_typing_Tuple value_type) value_type
                          (zip (indices_from_shape (assignment_target_shape target))
                               (flatten_assignment_targets target)) (var_type_map self1)")
            case (Inl e)
            then show ?thesis
              using v Inr Cons True TargetTuple free1 by (simp add: visit_Assign_def)
          next
            case bound: (Inr mm)
            have "xun_free_env mm"
              using bind_targets_xun_free [OF bound xun_free_outer [OF free1] vfree] .
            then have "xun_free K (self1\<lparr>var_type_map := mm\<rparr>)" by (rule upd)
            then show ?thesis
              using v Inr Cons True TargetTuple bound vfree by (simp add: visit_Assign_def)
          qed
        qed
      qed
    qed
  qed
qed

text \<open>
  C2. \<open>visit_Call\<close> returns \<open>XunType\<close> exactly when the callee is a bare name that is in
  \<open>known_xun_functions\<close>, whatever the arguments are (they are not visited), and
  \<open>typing.Any\<close> for every other call; it changes nothing and raises nothing. No other
  rule produces \<open>XunType\<close>: when it occurs in no binding of the object, visiting an
  expression, or an assignment, that contains no call of a known xun function by its bare
  name returns a type in which \<open>XunType\<close> does not occur and leaves an object in whose
  bindings it does not occur.
\<close>

theorem call_sole_producer_of_XunType:
  "visit (Call func args) self =
     (Inr (case func of
             Name name \<Rightarrow> if name \<in> known_xun_functions self then XunType else Any
           | _ \<Rightarrow> Any), self)
   \<and> (xun_free K self \<and> \<not> calls_known K e \<longrightarrow>
        xun_free K (snd (visit e self))
        \<and> (\<forall>t. fst (visit e self) = Inr t \<longrightarrow> \<not> mentions_XunType t))
   \<and> (xun_free K self \<and> \<not> calls_known K val \<longrightarrow>
        xun_free K (snd (visit_stmt (Assign targets val) self))
        \<and> (\<forall>t. fst (visit_stmt (Assign targets val) self) = Inr t \<longrightarrow> \<not> mentions_XunType t))"
proof -
  have call: "visit (Call func args) self =
     (Inr (case func of
             Name name \<Rightarrow> if name \<in> known_xun_functions self then XunType else Any
           | _ \<Rightarrow> Any), self)"
    by (cases func) simp_all
  show ?thesis
    using call visit_xun_free(1) [of K self e] visit_Assign_xun_free [of K self val targets]
    by simp
qed

theorem call_sole_producer_of_XunType_witness:
  "visit (Call (Name ''f'') [Constant, Call (Name ''f'') []]) (init {''f''}) =
     (Inr XunType, init {''f''})
   \<and> visit (Call (Name ''g'') [Call (Name ''f'') []]) (init {''f''}) = (Inr Any, init {''f''})
   \<and> visit (Call (Call (Name ''f'') []) []) (init {''f''}) = (Inr Any, init {''f''})
   \<and> visit (Call (Unimplemented Attribute [Name ''f'']) []) (init {''f''}) =
       (Inr Any, init {''f''})
   \<and> fst (visit (Tuple [Constant, IfExp (Name ''c'') (Call (Name ''g'') []) (UnaryOp Constant)])
            (init {''f''})) = Inr (TupleOf [Any, UnionOf [Any, NoneType]])
   \<and> \<not> mentions_XunType (TupleOf [Any, UnionOf [Any, NoneType]])"
proof -
  let ?e = "Tuple [Constant, IfExp (Name ''c'') (Call (Name ''g'') []) (UnaryOp Constant)]"
  have free: "xun_free {''f''} (init {''f''})"
    by (simp add: xun_free_def init_def)
  have nocall: "\<not> calls_known {''f''} ?e"
    by simp
  have res: "fst (visit ?e (init {''f''})) = Inr (TupleOf [Any, UnionOf [Any, NoneType]])"
    by (simp add: init_def typing_Tuple_def typing_Union_def)
  have known: "known_xun_functions (init {''f''}) = {''f''}"
    by (simp add: init_def)
  show ?thesis
    using
      call_sole_producer_of_XunType [of "Name ''f''" "[Constant, Call (Name ''f'') []]"
        "init {''f''}" "{''f''}" ?e Constant "[]"]
      call_sole_producer_of_XunType [of "Name ''g''" "[Call (Name ''f'') []]"
        "init {''f''}" "{''f''}" ?e Constant "[]"]
      call_sole_producer_of_XunType [of "Call (Name ''f'') []" "[]"
        "init {''f''}" "{''f''}" ?e Constant "[]"]
      call_sole_producer_of_XunType [of "Unimplemented Attribute [Name ''f'']" "[]"
        "init {''f''}" "{''f''}" ?e Constant "[]"]
      free nocall res known
    by (simp del: visit.simps calls_known.simps)
qed

end
